theory Spec2Isabelle
  imports Complex_Main "HOL-Library.Sublist" "HOL-Library.Code_Target_Nat"
begin

section \<open>Strings\<close>

text \<open>
  A JavaScript string is modelled as a \<open>string\<close>: a list of code units below 256.
  \<open>is_space\<close> is the set matched by the regular expression class \<open>\s\<close> and stripped by
  \<open>String.prototype.trim\<close> (WhiteSpace and LineTerminator), restricted to that range:
  TAB, LF, VT, FF, CR, SPACE and NBSP.
\<close>

definition is_space :: "char \<Rightarrow> bool" where
  "is_space c = (of_char c \<in> {9, 10, 11, 12, 13, 32, 160 :: nat})"

text \<open>The class \<open>\d\<close>, and the value of a decimal digit.\<close>

definition is_digit :: "char \<Rightarrow> bool" where
  "is_digit c = (48 \<le> (of_char c :: nat) \<and> (of_char c :: nat) \<le> 57)"

definition digit_val :: "char \<Rightarrow> nat" where
  "digit_val c = of_char c - 48"

definition trimStart :: "string \<Rightarrow> string" where
  "trimStart s = dropWhile is_space s"

definition trimEnd :: "string \<Rightarrow> string" where
  "trimEnd s = rev (dropWhile is_space (rev s))"

definition trim :: "string \<Rightarrow> string" where
  "trim s = trimEnd (trimStart s)"

text \<open>\<open>String.prototype.toLowerCase\<close> on code units below 256: A-Z and the Latin-1
  capitals U+00C0..U+00DE (without the multiplication sign U+00D7) move up by 32.\<close>

definition lower_char :: "char \<Rightarrow> char" where
  "lower_char c =
     (let n = (of_char c :: nat)
      in if (65 \<le> n \<and> n \<le> 90) \<or> (192 \<le> n \<and> n \<le> 222 \<and> n \<noteq> 215)
         then char_of (n + 32) else c)"

definition toLowerCase :: "string \<Rightarrow> string" where
  "toLowerCase s = map lower_char s"

text \<open>The decimal value of a run of digits, most significant first: as a natural number
  for the five digits of an id, as an integer for the digits of a numeric literal.\<close>

definition digits_val :: "string \<Rightarrow> nat" where
  "digits_val ds = foldl (\<lambda>acc c. 10 * acc + digit_val c) 0 ds"

definition digits_int :: "string \<Rightarrow> int" where
  "digits_int ds = foldl (\<lambda>acc c. 10 * acc + int (digit_val c)) 0 ds"

text \<open>The decimal digits of a non-negative integer.\<close>

function int_digits :: "int \<Rightarrow> string" where
  "int_digits n =
     (if n < 10 then [''0123456789'' ! nat n]
      else int_digits (n div 10) @ [''0123456789'' ! nat (n mod 10)])"
  by pat_completeness auto
termination
  by (relation "measure nat") auto

declare int_digits.simps [simp del]

text \<open>\<open>String(n)\<close> for the number of an id, a non-negative integer: its decimal digits.\<close>

fun nat_digits :: "nat \<Rightarrow> string" where
  "nat_digits n =
     (if n < 10 then [char_of (48 + n)]
      else nat_digits (n div 10) @ [char_of (48 + n mod 10)])"

declare nat_digits.simps [simp del]

text \<open>\<open>s.padStart(w, "0")\<close>.\<close>

definition padStart0 :: "nat \<Rightarrow> string \<Rightarrow> string" where
  "padStart0 w s = replicate (w - length s) (CHR ''0'') @ s"

section \<open>Numbers\<close>

text \<open>
  A JavaScript Number is an IEEE 754 binary64 value. The finite ones are rationals, so a
  Number is modelled as \<open>NaN\<close>, one of the two infinities, or \<open>Fin q\<close> for the rational
  \<open>q\<close> it denotes; the two zeros are identified (no operation used by this program tells
  them apart). Every operation whose exact result need not be a binary64 value rounds it
  with \<open>fl\<close>: to nearest, ties to even, overflow to infinity, gradual underflow.
\<close>

datatype jsnum = NaN | PosInf | NegInf | Fin rat

definition pow2 :: "int \<Rightarrow> rat" where
  "pow2 i = (if 0 \<le> i then 2 ^ nat i else 1 / 2 ^ nat (- i))"

definition pow10 :: "int \<Rightarrow> rat" where
  "pow10 i = (if 0 \<le> i then 10 ^ nat i else 1 / 10 ^ nat (- i))"

text \<open>The number of binary digits of a positive integer.\<close>

function bit_length :: "int \<Rightarrow> int" where
  "bit_length k = (if k \<le> 0 then 0 else 1 + bit_length (k div 2))"
  by pat_completeness auto
termination
  by (relation "measure nat") auto

declare bit_length.simps [simp del]

text \<open>\<open>ilog2 a\<close> is \<open>\<lfloor>log\<^sub>2 a\<rfloor>\<close> for a positive rational \<open>a\<close>: the difference of the
  bit lengths of numerator and denominator, or one less.\<close>

definition ilog2 :: "rat \<Rightarrow> int" where
  "ilog2 a =
     (let (p, q) = quotient_of a;
          d = bit_length p - bit_length q
      in if pow2 d \<le> a then d else d - 1)"

definition round_even :: "rat \<Rightarrow> int" where
  "round_even q =
     (let f = \<lfloor>q\<rfloor>; r = q - of_int f
      in if r < 1 / 2 then f
         else if 1 / 2 < r then f + 1
         else if even f then f else f + 1)"

definition fl :: "rat \<Rightarrow> jsnum" where
  "fl x =
     (if x = 0 then Fin 0
      else
        let a = \<bar>x\<bar>;
            e = max (ilog2 a) (- 1022);
            u = pow2 (e - 52);
            m = round_even (a / u)
        in if 1023 < e \<or> (e = 1023 \<and> 9007199254740992 \<le> m)
           then (if 0 < x then PosInf else NegInf)
           else Fin (if 0 < x then of_int m * u else - (of_int m * u)))"

definition isFinite :: "jsnum \<Rightarrow> bool" where
  "isFinite x = (case x of Fin _ \<Rightarrow> True | _ \<Rightarrow> False)"

text \<open>The relational operators: every comparison with \<open>NaN\<close> is false.\<close>

fun num_lt :: "jsnum \<Rightarrow> jsnum \<Rightarrow> bool" where
  "num_lt NaN _ = False"
| "num_lt _ NaN = False"
| "num_lt PosInf _ = False"
| "num_lt _ PosInf = True"
| "num_lt _ NegInf = False"
| "num_lt NegInf _ = True"
| "num_lt (Fin a) (Fin b) = (a < b)"

fun num_le :: "jsnum \<Rightarrow> jsnum \<Rightarrow> bool" where
  "num_le NaN _ = False"
| "num_le _ NaN = False"
| "num_le _ PosInf = True"
| "num_le PosInf _ = False"
| "num_le NegInf _ = True"
| "num_le _ NegInf = False"
| "num_le (Fin a) (Fin b) = (a \<le> b)"

text \<open>The sign of a Number that is not \<open>NaN\<close>, for the product.\<close>

fun num_sgn :: "jsnum \<Rightarrow> int" where
  "num_sgn NaN = 0"
| "num_sgn PosInf = 1"
| "num_sgn NegInf = - 1"
| "num_sgn (Fin a) = (if 0 < a then 1 else if a < 0 then - 1 else 0)"

text \<open>The operator \<open>*\<close>.\<close>

fun num_mul :: "jsnum \<Rightarrow> jsnum \<Rightarrow> jsnum" where
  "num_mul NaN _ = NaN"
| "num_mul _ NaN = NaN"
| "num_mul (Fin a) (Fin b) = fl (a * b)"
| "num_mul x y =
     (let s = num_sgn x * num_sgn y
      in if s = 0 then NaN else if 0 < s then PosInf else NegInf)"

text \<open>\<open>Math.max\<close> and \<open>Math.min\<close> of two arguments.\<close>

fun Math_max :: "jsnum \<Rightarrow> jsnum \<Rightarrow> jsnum" where
  "Math_max NaN _ = NaN"
| "Math_max _ NaN = NaN"
| "Math_max a b = (if num_lt a b then b else a)"

fun Math_min :: "jsnum \<Rightarrow> jsnum \<Rightarrow> jsnum" where
  "Math_min NaN _ = NaN"
| "Math_min _ NaN = NaN"
| "Math_min a b = (if num_lt b a then b else a)"

text \<open>\<open>Math.round\<close> (halves go up) and \<open>Math.ceil\<close>.\<close>

fun Math_round :: "jsnum \<Rightarrow> jsnum" where
  "Math_round (Fin a) = Fin (of_int \<lfloor>a + 1 / 2\<rfloor>)"
| "Math_round x = x"

fun Math_ceil :: "jsnum \<Rightarrow> jsnum" where
  "Math_ceil (Fin a) = Fin (of_int \<lceil>a\<rceil>)"
| "Math_ceil x = x"

text \<open>Unary minus.\<close>

fun num_neg :: "jsnum \<Rightarrow> jsnum" where
  "num_neg NaN = NaN"
| "num_neg PosInf = NegInf"
| "num_neg NegInf = PosInf"
| "num_neg (Fin a) = Fin (- a)"

subsection \<open>Strings to numbers\<close>

text \<open>
  \<open>parse_exponent\<close> reads an ExponentPart (\<open>e\<close> or \<open>E\<close>, an optional sign, digits) at
  the head of a string and returns its value and the rest.
\<close>

definition parse_exponent :: "string \<Rightarrow> (int \<times> string) option" where
  "parse_exponent s =
     (case s of
        [] \<Rightarrow> None
      | c # r \<Rightarrow>
          if c = CHR ''e'' \<or> c = CHR ''E'' then
            (let neg = (r \<noteq> [] \<and> hd r = CHR ''-'');
                 r' = (if r \<noteq> [] \<and> (hd r = CHR ''+'' \<or> hd r = CHR ''-'') then tl r else r);
                 ds = takeWhile is_digit r'
             in if ds = [] then None
                else Some ((if neg then - digits_int ds else digits_int ds),
                           dropWhile is_digit r'))
          else None)"

text \<open>
  The longest prefix that is a StrUnsignedDecimalLiteral: \<open>Infinity\<close>, or digits with an
  optional fraction and an optional exponent, or a fraction that starts with the point.
  The mathematical value is rounded with \<open>fl\<close>.
\<close>

definition parse_unsigned :: "string \<Rightarrow> (jsnum \<times> string) option" where
  "parse_unsigned s =
     (if take 8 s = ''Infinity'' then Some (PosInf, drop 8 s)
      else
        let ip = takeWhile is_digit s;
            r1 = dropWhile is_digit s;
            dot = (r1 \<noteq> [] \<and> hd r1 = CHR ''.'');
            fp = (if dot then takeWhile is_digit (tl r1) else []);
            r2 = (if dot then dropWhile is_digit (tl r1) else r1)
        in if ip = [] \<and> fp = [] then None
           else
             let (ex, r3) = (case parse_exponent r2 of None \<Rightarrow> (0, r2) | Some p \<Rightarrow> p)
             in Some (fl (of_int (digits_int (ip @ fp)) * pow10 (ex - int (length fp))), r3))"

text \<open>The longest prefix that is a StrDecimalLiteral: an optional sign first.\<close>

definition parse_StrDecimalLiteral :: "string \<Rightarrow> (jsnum \<times> string) option" where
  "parse_StrDecimalLiteral s =
     (if s \<noteq> [] \<and> hd s = CHR ''+'' then parse_unsigned (tl s)
      else if s \<noteq> [] \<and> hd s = CHR ''-'' then
        map_option (\<lambda>(v, r). (num_neg v, r)) (parse_unsigned (tl s))
      else parse_unsigned s)"

text \<open>The global function \<open>parseFloat\<close> applied to a string.\<close>

definition parseFloat :: "string \<Rightarrow> jsnum" where
  "parseFloat s =
     (case parse_StrDecimalLiteral (trimStart s) of
        None \<Rightarrow> NaN
      | Some (v, _) \<Rightarrow> v)"

text \<open>The binary, octal and hexadecimal integer literals that \<open>Number\<close> accepts.\<close>

definition radix_digit :: "char \<Rightarrow> int option" where
  "radix_digit c =
     (let n = (of_char c :: int)
      in if 48 \<le> n \<and> n \<le> 57 then Some (n - 48)
         else if 97 \<le> n \<and> n \<le> 102 then Some (n - 87)
         else if 65 \<le> n \<and> n \<le> 70 then Some (n - 55)
         else None)"

definition radix_val :: "int \<Rightarrow> string \<Rightarrow> int option" where
  "radix_val b ds =
     (if ds \<noteq> [] \<and> list_all (\<lambda>c. case radix_digit c of None \<Rightarrow> False | Some d \<Rightarrow> d < b) ds
      then Some (foldl (\<lambda>acc c. b * acc + the (radix_digit c)) 0 ds)
      else None)"

definition parse_nondecimal :: "string \<Rightarrow> int option" where
  "parse_nondecimal s =
     (case s of
        z # x # ds \<Rightarrow>
          if z \<noteq> CHR ''0'' then None
          else if x = CHR ''x'' \<or> x = CHR ''X'' then radix_val 16 ds
          else if x = CHR ''o'' \<or> x = CHR ''O'' then radix_val 8 ds
          else if x = CHR ''b'' \<or> x = CHR ''B'' then radix_val 2 ds
          else None
      | _ \<Rightarrow> None)"

text \<open>\<open>Number(s)\<close> for a string \<open>s\<close> (the abstract operation StringToNumber): the trimmed
  string must be empty or a numeric literal as a whole.\<close>

definition StringToNumber :: "string \<Rightarrow> jsnum" where
  "StringToNumber s =
     (let t = trim s
      in if t = [] then Fin 0
         else case parse_nondecimal t of
                Some n \<Rightarrow> fl (of_int n)
              | None \<Rightarrow>
                 (case parse_StrDecimalLiteral t of
                    None \<Rightarrow> NaN
                  | Some (v, r) \<Rightarrow> if r = [] then v else NaN))"

subsection \<open>Numbers to strings\<close>

text \<open>\<open>ilog10 a\<close> is \<open>\<lfloor>log\<^sub>1\<^sub>0 a\<rfloor>\<close> for a positive rational \<open>a\<close>.\<close>

definition ilog10 :: "rat \<Rightarrow> int" where
  "ilog10 a =
     (if 1 \<le> a then int (length (int_digits \<lfloor>a\<rfloor>)) - 1
      else
        let b = \<lceil>1 / a\<rceil> - 1
        in - int (if b = 0 then 0 else length (int_digits b)))"

text \<open>
  \<open>Number::toString\<close> chooses integers \<open>n\<close>, \<open>k\<close>, \<open>s\<close> with \<open>k\<close> as small as possible
  such that \<open>s\<close> has \<open>k\<close> digits and \<open>s \<times> 10\<^sup>n\<^sup>-\<^sup>k\<close> rounds to the Number; among several
  \<open>s\<close> the one closest to the Number, the even one on a tie.
  \<open>find_digits fuel k x n0\<close> tries \<open>k\<close>, \<open>k + 1\<close>, ... digits for the positive value \<open>x\<close>
  with \<open>n0 = \<lfloor>log\<^sub>1\<^sub>0 x\<rfloor> + 1\<close>: the only candidates with \<open>k\<close> digits are the two integers
  around \<open>x / 10\<^sup>n\<^sup>0\<^sup>-\<^sup>k\<close>; the upper one may be \<open>10\<^sup>k\<close>, which is \<open>10\<^sup>k\<^sup>-\<^sup>1\<close> with \<open>n0 + 1\<close>.
  Seventeen digits always suffice for a binary64 value.
\<close>

fun find_digits :: "nat \<Rightarrow> nat \<Rightarrow> rat \<Rightarrow> int \<Rightarrow> int \<times> int" where
  "find_digits 0 k x n0 = (\<lfloor>x / pow10 (n0 - int k)\<rfloor>, n0)"
| "find_digits (Suc fuel) k x n0 =
     (let sc = pow10 (n0 - int k);
          lo = \<lfloor>x / sc\<rfloor>;
          hi = lo + 1;
          ok_lo = (fl (of_int lo * sc) = Fin x);
          ok_hi = (fl (of_int hi * sc) = Fin x);
          d_lo = x - of_int lo * sc;
          d_hi = of_int hi * sc - x;
          prefer_hi = (d_hi < d_lo \<or> (d_hi = d_lo \<and> even hi))
      in if ok_lo \<and> \<not> (ok_hi \<and> prefer_hi) then (lo, n0)
         else if ok_hi then (if hi = 10 ^ k then (10 ^ (k - 1), n0 + 1) else (hi, n0))
         else find_digits fuel (Suc k) x n0)"

text \<open>The layout of the digits \<open>ds\<close> with decimal exponent \<open>n\<close>, as \<open>Number::toString\<close>
  prescribes: plain digits, a decimal point, leading zeros, or exponent notation.\<close>

definition layout_digits :: "string \<Rightarrow> int \<Rightarrow> string" where
  "layout_digits ds n =
     (let k = int (length ds)
      in if k \<le> n \<and> n \<le> 21 then ds @ replicate (nat (n - k)) (CHR ''0'')
         else if 0 < n \<and> n \<le> 21 then take (nat n) ds @ ''.'' @ drop (nat n) ds
         else if - 6 < n \<and> n \<le> 0 then ''0.'' @ replicate (nat (- n)) (CHR ''0'') @ ds
         else
           let e = n - 1;
               es = (if e < 0 then ''-'' else ''+'') @ int_digits \<bar>e\<bar>
           in if k = 1 then ds @ ''e'' @ es
              else take 1 ds @ ''.'' @ drop 1 ds @ ''e'' @ es)"

text \<open>\<open>String(x)\<close> and template interpolation of a Number.\<close>

definition num_to_string :: "jsnum \<Rightarrow> string" where
  "num_to_string x =
     (case x of
        NaN \<Rightarrow> ''NaN''
      | PosInf \<Rightarrow> ''Infinity''
      | NegInf \<Rightarrow> ''-Infinity''
      | Fin q \<Rightarrow>
          if q = 0 then ''0''
          else
            let a = \<bar>q\<bar>;
                (s, n) = find_digits 17 1 a (ilog10 a + 1);
                body = layout_digits (int_digits s) n
            in if q < 0 then ''-'' @ body else body)"

text \<open>\<open>x.toFixed(2)\<close>: the integer \<open>n\<close> with \<open>n / 100\<close> closest to \<open>|x|\<close> (the larger one on
  a tie), written with two decimals; \<open>String(x)\<close> from \<open>10\<^sup>2\<^sup>1\<close> on and for the non-finite.\<close>

definition toFixed2 :: "jsnum \<Rightarrow> string" where
  "toFixed2 x =
     (case x of
        Fin q \<Rightarrow>
          let sg = (if q < 0 then ''-'' else []);
              a = \<bar>q\<bar>
          in if 10 ^ 21 \<le> a then sg @ num_to_string (Fin a)
             else
               let m = int_digits \<lfloor>a * 100 + 1 / 2\<rfloor>;
                   m' = (if length m \<le> 2 then replicate (3 - length m) (CHR ''0'') @ m else m)
               in sg @ take (length m' - 2) m' @ ''.'' @ drop (length m' - 2) m'
      | _ \<Rightarrow> num_to_string x)"

section \<open>Request payloads\<close>

text \<open>
  A field of a request body or of a payload object is absent (\<open>undefined\<close>), a string, or a
  Number. Text fields arrive as optional strings (\<open>None\<close> is \<open>undefined\<close>); numeric fields
  may hold either a string, as a submitted form does, or a Number.
\<close>

datatype jsval = Undefined | Str string | Num jsnum

text \<open>\<open>Number(v)\<close>.\<close>

fun ToNumber :: "jsval \<Rightarrow> jsnum" where
  "ToNumber Undefined = NaN"
| "ToNumber (Str s) = StringToNumber s"
| "ToNumber (Num n) = n"

text \<open>\<open>String(v || "")\<close> for an optional string: an absent field is the empty string.\<close>

definition str_or_empty :: "string option \<Rightarrow> string" where
  "str_or_empty v = (case v of None \<Rightarrow> [] | Some s \<Rightarrow> s)"

text \<open>Truthiness of an optional string (\<open>undefined\<close> and \<open>""\<close> are falsy) and of a Number
  (zero and \<open>NaN\<close> are falsy).\<close>

definition truthy_str :: "string option \<Rightarrow> bool" where
  "truthy_str v = (case v of None \<Rightarrow> False | Some s \<Rightarrow> s \<noteq> [])"

definition truthy_num :: "jsnum \<Rightarrow> bool" where
  "truthy_num x = (x \<noteq> NaN \<and> x \<noteq> Fin 0)"

text \<open>The test \<open>/^\d{4}-\d{2}-\d{2}$/\<close> of both constructors and of the request validator.\<close>

definition isYmd :: "string \<Rightarrow> bool" where
  "isYmd s =
     (length s = 10 \<and> list_all is_digit (take 4 s) \<and> s ! 4 = CHR ''-''
      \<and> list_all is_digit (take 2 (drop 5 s)) \<and> s ! 7 = CHR ''-''
      \<and> list_all is_digit (drop 8 s))"

section \<open>Recipes\<close>

record recipe =
  recipeId :: string
  title :: string
  chef :: string
  ingredients :: "string list"
  instructions :: "string list"
  mealType :: string
  cuisineType :: string
  prepTime :: jsnum
  difficulty :: string
  servings :: jsnum
  createdDate :: string

text \<open>
  The object handed to the constructor. \<open>ingredients\<close> and \<open>instructions\<close> are absent (the
  default \<open>[]\<close> applies), an array, or something that is not an array; \<open>createdDate\<close> is
  absent (the default, the current date, applies) or a string.
\<close>

datatype array_arg = NoArray | Array "string list" | NotArray

record recipe_args =
  a_recipeId :: string
  a_title :: string
  a_chef :: string
  a_ingredients :: array_arg
  a_instructions :: array_arg
  a_mealType :: string
  a_cuisineType :: string
  a_prepTime :: jsnum
  a_difficulty :: string
  a_servings :: jsnum
  a_createdDate :: "string option"

text \<open>The test \<open>/^R-\d{5}$/\<close>.\<close>

definition is_recipe_id :: "string \<Rightarrow> bool" where
  "is_recipe_id s = (length s = 7 \<and> take 2 s = ''R-'' \<and> list_all is_digit (drop 2 s))"

text \<open>
  \<open>new Recipe({...})\<close>. \<open>today\<close> is the value of \<open>new Date().toISOString().slice(0, 10)\<close> when
  the call is made. A thrown \<open>Error\<close> is \<open>Inl\<close> of its message. The checks keep the order
  of the source.
\<close>

definition Recipe_new :: "string \<Rightarrow> recipe_args \<Rightarrow> string + recipe" where
  "Recipe_new today a =
     (let created = (case a_createdDate a of None \<Rightarrow> today | Some d \<Rightarrow> d)
      in if \<not> is_recipe_id (a_recipeId a) then Inl ''recipeId must be in 'R-00001' format''
         else if trim (a_title a) = [] then Inl ''title is required''
         else if trim (a_chef a) = [] then Inl ''chef is required''
         else if \<not> isFinite (a_prepTime a) \<or> num_le (a_prepTime a) (Fin 0)
           then Inl ''prepTime must be a number > 0''
         else if a_difficulty a \<notin> set [''Easy'', ''Medium'', ''Hard'']
           then Inl (''difficulty must be one of 'Easy' | 'Medium' | 'Hard'' @ [CHR 0x27])
         else if \<not> isFinite (a_servings a) \<or> num_le (a_servings a) (Fin 0)
           then Inl ''servings must be a number > 0''
         else if a_ingredients a = NotArray then Inl ''ingredients must be an array''
         else if a_instructions a = NotArray then Inl ''instructions must be an array''
         else if \<not> isYmd created then Inl ''createdDate must be in 'YYYY-MM-DD' format''
         else Inr \<lparr> recipeId = a_recipeId a,
                    title = trim (a_title a),
                    chef = trim (a_chef a),
                    ingredients = (case a_ingredients a of Array xs \<Rightarrow> xs | _ \<Rightarrow> []),
                    instructions = (case a_instructions a of Array xs \<Rightarrow> xs | _ \<Rightarrow> []),
                    mealType = trim (a_mealType a),
                    cuisineType = trim (a_cuisineType a),
                    prepTime = a_prepTime a,
                    difficulty = a_difficulty a,
                    servings = a_servings a,
                    createdDate = created \<rparr>)"

text \<open>\<open>Recipe.formatId\<close>, for the integers \<open>add\<close> passes.\<close>

definition Recipe_formatId :: "nat \<Rightarrow> string" where
  "Recipe_formatId n = ''R-'' @ padStart0 5 (nat_digits n)"

text \<open>
  \<open>str.split(/\r?\n|,/)\<close>: a separator is a line feed, a carriage return with a line feed
  after it, or a comma; \<open>cur\<close> is the piece being read.
\<close>

fun split_list :: "string \<Rightarrow> string \<Rightarrow> string list" where
  "split_list cur [] = [cur]"
| "split_list cur (c # cs) =
     (if c = CHR 0x0D \<and> cs \<noteq> [] \<and> hd cs = CHR 0x0A then cur # split_list [] (tl cs)
      else if c = CHR 0x0A \<or> c = CHR '','' then cur # split_list [] cs
      else split_list (cur @ [c]) cs)"

text \<open>\<open>Recipe.parseList\<close>: split, trim each piece, drop the empty ones.\<close>

definition parseList :: "string option \<Rightarrow> string list" where
  "parseList v = filter (\<lambda>s. s \<noteq> []) (map trim (split_list [] (str_or_empty v)))"

record recipe_payload =
  p_title :: "string option"
  p_chef :: "string option"
  p_mealType :: "string option"
  p_cuisineType :: "string option"
  p_prepTime :: jsval
  p_difficulty :: "string option"
  p_servings :: jsval
  p_ingredients :: "string option"
  p_instructions :: "string option"
  p_createdDate :: "string option"

text \<open>The number a stored recipe contributes to the next id: the five digits after \<open>R-\<close>
  when its id matches \<open>/^R-(\d{5})$/\<close>, and 0 otherwise.\<close>

definition recipe_id_num :: "string \<Rightarrow> nat" where
  "recipe_id_num rid = (if is_recipe_id rid then digits_val (drop 2 rid) else 0)"

text \<open>\<open>recipes.map(...).reduce((a, b) => Math.max(a, b), 0) + 1\<close>.\<close>

definition recipe_nextNum :: "recipe list \<Rightarrow> nat" where
  "recipe_nextNum recipes = foldl max 0 (map (\<lambda>r. recipe_id_num (recipeId r)) recipes) + 1"

text \<open>The object \<open>newRecipe\<close> that \<open>Recipe.add\<close> builds. The payload's own \<open>createdDate\<close> is
  never read.\<close>

definition Recipe_add_newRecipe :: "string \<Rightarrow> recipe list \<Rightarrow> recipe_payload \<Rightarrow> recipe_args" where
  "Recipe_add_newRecipe today recipes p =
     \<lparr> a_recipeId = Recipe_formatId (recipe_nextNum recipes),
       a_title = trim (str_or_empty (p_title p)),
       a_chef = trim (str_or_empty (p_chef p)),
       a_ingredients = Array (parseList (p_ingredients p)),
       a_instructions = Array (parseList (p_instructions p)),
       a_mealType = trim (str_or_empty (p_mealType p)),
       a_cuisineType = trim (str_or_empty (p_cuisineType p)),
       a_prepTime = ToNumber (p_prepTime p),
       a_difficulty = trim (str_or_empty (p_difficulty p)),
       a_servings = ToNumber (p_servings p),
       a_createdDate = Some today \<rparr>"

text \<open>
  \<open>Recipe.add(recipes, payload)\<close>: the result (the stored record, or the message of the
  error thrown) and the collection afterwards. The record is pushed only after the
  constructor has returned.
\<close>

definition Recipe_add ::
  "string \<Rightarrow> recipe list \<Rightarrow> recipe_payload \<Rightarrow> (string + recipe) \<times> recipe list" where
  "Recipe_add today recipes p =
     (if trim (str_or_empty (p_title p)) = [] then (Inl ''title is required'', recipes)
      else if trim (str_or_empty (p_chef p)) = [] then (Inl ''chef is required'', recipes)
      else case Recipe_new today (Recipe_add_newRecipe today recipes p) of
             Inl e \<Rightarrow> (Inl e, recipes)
           | Inr validated \<Rightarrow> (Inr validated, recipes @ [validated]))"

text \<open>The seed data of \<open>data/sampleData.js\<close>.\<close>

definition seed_recipes :: "recipe list" where
  "seed_recipes =
     [\<lparr> recipeId = ''R-00001'', title = ''Classic Spaghetti Carbonara'',
         chef = ''TakumiWatanabe'',
         ingredients = [''400g spaghetti'', ''200g pancetta'', ''4 large eggs'',
                        ''100g Pecorino Romano'', ''Black pepper''],
         instructions = [''Boil salted water for pasta'', ''Cook pancetta until crispy'',
                         ''Whisk eggs with cheese'', ''Combine hot pasta with pancetta'',
                         ''Add egg mixture off heat''],
         mealType = ''Dinner'', cuisineType = ''Italian'', prepTime = Fin 25,
         difficulty = ''Medium'', servings = Fin 4, createdDate = ''2025-07-20'' \<rparr>,
      \<lparr> recipeId = ''R-00002'', title = ''Avocado Toast Supreme'',
         chef = ''TakumiWatanabe'',
         ingredients = [''2 slices sourdough bread'', ''1 ripe avocado'', ''1 tomato'',
                        ''Feta cheese'', ''Olive oil'', ''Lemon juice''],
         instructions = [''Toast bread until golden'', ''Mash avocado with lemon'',
                         ''Slice tomato'', ''Spread avocado on toast'',
                         ''Top with tomato and feta''],
         mealType = ''Breakfast'', cuisineType = ''Mediterranean'', prepTime = Fin 10,
         difficulty = ''Easy'', servings = Fin 2, createdDate = ''2025-07-21'' \<rparr>]"

text \<open>A payload as the add-recipe form submits it: every field a string.\<close>

definition sample_recipe_payload :: recipe_payload where
  "sample_recipe_payload =
     \<lparr> p_title = Some ''Miso Soup'', p_chef = Some ''Aiko'',
       p_mealType = Some ''Lunch'', p_cuisineType = Some ''Japanese'',
       p_prepTime = Str ''15'', p_difficulty = Some ''Easy'', p_servings = Str ''2'',
       p_ingredients = Some ''2 tbsp miso, 200g tofu'',
       p_instructions = Some ''Boil water, Stir in miso'',
       p_createdDate = None \<rparr>"

section \<open>Inventory items\<close>

record inventory_item =
  inventoryId :: string
  userId :: string
  ingredientName :: string
  quantity :: jsnum
  i_unit :: string
  category :: string
  purchaseDate :: string
  expirationDate :: string
  location :: string
  cost :: jsnum
  i_createdDate :: string

text \<open>The object handed to the constructor: \<open>cost\<close> and \<open>createdDate\<close> have defaults, the
  two dates may be absent.\<close>

record inventory_args =
  b_inventoryId :: string
  b_userId :: string
  b_ingredientName :: string
  b_quantity :: jsnum
  b_unit :: string
  b_category :: string
  b_purchaseDate :: "string option"
  b_expirationDate :: "string option"
  b_location :: string
  b_cost :: "jsnum option"
  b_createdDate :: "string option"

text \<open>The test \<open>/^I-\d{5}$/\<close>.\<close>

definition is_inventory_id :: "string \<Rightarrow> bool" where
  "is_inventory_id s = (length s = 7 \<and> take 2 s = ''I-'' \<and> list_all is_digit (drop 2 s))"

text \<open>The operator \<open><\<close> on two strings: code unit by code unit, a proper prefix first.\<close>

fun str_less :: "string \<Rightarrow> string \<Rightarrow> bool" where
  "str_less _ [] = False"
| "str_less [] (_ # _) = True"
| "str_less (x # xs) (y # ys) =
     ((of_char x :: nat) < of_char y \<or> (x = y \<and> str_less xs ys))"

text \<open>\<open>new InventoryItem({...})\<close>, the checks in the order of the source.\<close>

definition InventoryItem_new :: "string \<Rightarrow> inventory_args \<Rightarrow> string + inventory_item" where
  "InventoryItem_new today b =
     (let cost_v = (case b_cost b of None \<Rightarrow> Fin 0 | Some c \<Rightarrow> c);
          created = (case b_createdDate b of None \<Rightarrow> today | Some d \<Rightarrow> d)
      in if \<not> is_inventory_id (b_inventoryId b)
           then Inl ''inventoryId must be in 'I-00001' format''
         else if trim (b_userId b) = [] then Inl ''userId is required''
         else if trim (b_ingredientName b) = [] then Inl ''ingredientName is required''
         else if trim (b_unit b) = [] then Inl ''unit is required''
         else if trim (b_category b) = [] then Inl ''category is required''
         else if trim (b_location b) = [] then Inl ''location is required''
         else if \<not> isFinite (b_quantity b) \<or> num_lt (b_quantity b) (Fin 0)
           then Inl ''quantity must be a non-negative number''
         else if \<not> isFinite cost_v \<or> num_lt cost_v (Fin 0)
           then Inl ''cost must be a number >= 0''
         else if truthy_str (b_purchaseDate b) \<and> \<not> isYmd (str_or_empty (b_purchaseDate b))
           then Inl ''purchaseDate must be in 'YYYY-MM-DD' format''
         else if truthy_str (b_expirationDate b) \<and> \<not> isYmd (str_or_empty (b_expirationDate b))
           then Inl ''expirationDate must be in 'YYYY-MM-DD' format''
         else if \<not> isYmd created then Inl ''createdDate must be in 'YYYY-MM-DD' format''
         else if truthy_str (b_purchaseDate b) \<and> truthy_str (b_expirationDate b)
                 \<and> str_less (str_or_empty (b_expirationDate b)) (str_or_empty (b_purchaseDate b))
           then Inl ''expirationDate must not be earlier than purchaseDate''
         else Inr \<lparr> inventoryId = b_inventoryId b,
                    userId = trim (b_userId b),
                    ingredientName = trim (b_ingredientName b),
                    quantity = b_quantity b,
                    i_unit = trim (b_unit b),
                    category = trim (b_category b),
                    purchaseDate = str_or_empty (b_purchaseDate b),
                    expirationDate = str_or_empty (b_expirationDate b),
                    location = trim (b_location b),
                    cost = cost_v,
                    i_createdDate = created \<rparr>)"

definition InventoryItem_formatId :: "nat \<Rightarrow> string" where
  "InventoryItem_formatId n = ''I-'' @ padStart0 5 (nat_digits n)"

text \<open>The fields \<open>InventoryItem.add\<close> reads from its payload, the aliases among them.\<close>

record inventory_payload =
  q_userId :: "string option"
  q_name :: "string option"
  q_ingredientName :: "string option"
  q_category :: "string option"
  q_location :: "string option"
  q_quantity :: jsval
  q_unit :: "string option"
  q_pricePerUnit :: jsval
  q_cost :: jsval
  q_expiry :: "string option"
  q_expirationDate :: "string option"
  q_purchaseDate :: "string option"
  q_createdDate :: "string option"

definition inventory_id_num :: "string \<Rightarrow> nat" where
  "inventory_id_num iid = (if is_inventory_id iid then digits_val (drop 2 iid) else 0)"

definition inventory_nextNum :: "inventory_item list \<Rightarrow> nat" where
  "inventory_nextNum items =
     foldl max 0 (map (\<lambda>i. inventory_id_num (inventoryId i)) items) + 1"

text \<open>\<open>a || b\<close> on optional strings.\<close>

definition str_or :: "string option \<Rightarrow> string option \<Rightarrow> string option" where
  "str_or a b = (if truthy_str a then a else b)"

text \<open>\<open>Number(cost ?? pricePerUnit ?? 0)\<close>: \<open>??\<close> passes over \<open>undefined\<close> only.\<close>

definition cost_of :: "jsval \<Rightarrow> jsval \<Rightarrow> jsnum" where
  "cost_of c ppu =
     ToNumber (if c \<noteq> Undefined then c else if ppu \<noteq> Undefined then ppu else Num (Fin 0))"

text \<open>The object \<open>newItemRaw\<close> that \<open>InventoryItem.add\<close> builds.\<close>

definition InventoryItem_add_newItemRaw ::
  "string \<Rightarrow> inventory_item list \<Rightarrow> inventory_payload \<Rightarrow> inventory_args" where
  "InventoryItem_add_newItemRaw today items q =
     \<lparr> b_inventoryId = InventoryItem_formatId (inventory_nextNum items),
       b_userId = trim (str_or_empty (q_userId q)),
       b_ingredientName = trim (str_or_empty (str_or (q_ingredientName q) (q_name q))),
       b_quantity = ToNumber (q_quantity q),
       b_unit = trim (str_or_empty (q_unit q)),
       b_category = trim (str_or_empty (q_category q)),
       b_purchaseDate = Some (str_or_empty (str_or (q_purchaseDate q) (Some today))),
       b_expirationDate = Some (str_or_empty (str_or (q_expirationDate q) (q_expiry q))),
       b_location = trim (str_or_empty (str_or (q_location q) (Some ''Unknown''))),
       b_cost = Some (cost_of (q_cost q) (q_pricePerUnit q)),
       b_createdDate = Some (str_or_empty (str_or (q_createdDate q) (Some today))) \<rparr>"

text \<open>\<open>InventoryItem.add(items, payload)\<close>: the result and the collection afterwards.\<close>

definition InventoryItem_add ::
  "string \<Rightarrow> inventory_item list \<Rightarrow> inventory_payload
     \<Rightarrow> (string + inventory_item) \<times> inventory_item list" where
  "InventoryItem_add today items q =
     (if trim (str_or_empty (str_or (q_ingredientName q) (q_name q))) = []
        then (Inl ''ingredientName (or name) is required'', items)
      else if trim (str_or_empty (q_userId q)) = [] then (Inl ''userId is required'', items)
      else case InventoryItem_new today (InventoryItem_add_newItemRaw today items q) of
             Inl e \<Rightarrow> (Inl e, items)
           | Inr validated \<Rightarrow> (Inr validated, items @ [validated]))"

definition seed_inventory :: "inventory_item list" where
  "seed_inventory =
     [\<lparr> inventoryId = ''I-00001'', userId = ''TakumiWatanabe'',
         ingredientName = ''Fresh Tomatoes'', quantity = Fin 8, i_unit = ''pieces'',
         category = ''Vegetables'', purchaseDate = ''2025-07-18'',
         expirationDate = ''2025-07-25'', location = ''Fridge'', cost = fl (64 / 10),
         i_createdDate = ''2025-07-18'' \<rparr>,
      \<lparr> inventoryId = ''I-00002'', userId = ''TakumiWatanabe'',
         ingredientName = ''Spaghetti Pasta'', quantity = Fin 2, i_unit = ''kg'',
         category = ''Grains'', purchaseDate = ''2025-07-15'',
         expirationDate = ''2025-12-15'', location = ''Pantry'', cost = fl (89 / 10),
         i_createdDate = ''2025-07-22'' \<rparr>]"

text \<open>A body as the add-inventory form submits it: no \<open>userId\<close> field.\<close>

definition sample_inventory_payload :: inventory_payload where
  "sample_inventory_payload =
     \<lparr> q_userId = None, q_name = None, q_ingredientName = Some ''Milk'',
       q_category = Some ''Dairy'', q_location = Some ''Fridge'', q_quantity = Str ''2'',
       q_unit = Some ''l'', q_pricePerUnit = Undefined, q_cost = Str ''1.5'',
       q_expiry = None, q_expirationDate = Some ''2025-08-01'',
       q_purchaseDate = Some ''2025-07-24'', q_createdDate = Some ''2020-01-01'' \<rparr>"

section \<open>The data model, as specified\<close>

text \<open>
  The constraints of the specification's data model, stated on the object an \<open>add\<close> hands
  to the constructor. A number is "finite, > 0" or "finite, \<ge> 0"; a date has the format
  \<open>YYYY-MM-DD\<close>; the defaults of the model (current date) are applied first.
\<close>

definition pos_finite :: "jsnum \<Rightarrow> bool" where
  "pos_finite x = (case x of Fin q \<Rightarrow> 0 < q | _ \<Rightarrow> False)"

definition nonneg_finite :: "jsnum \<Rightarrow> bool" where
  "nonneg_finite x = (case x of Fin q \<Rightarrow> 0 \<le> q | _ \<Rightarrow> False)"

text \<open>Recipe: every constraint but the one on \<open>recipeId\<close>, and all of them.\<close>

definition recipe_fields_ok :: "string \<Rightarrow> recipe_args \<Rightarrow> bool" where
  "recipe_fields_ok today a =
     (trim (a_title a) \<noteq> [] \<and> trim (a_chef a) \<noteq> []
      \<and> pos_finite (a_prepTime a)
      \<and> a_difficulty a \<in> {''Easy'', ''Medium'', ''Hard''}
      \<and> pos_finite (a_servings a)
      \<and> a_ingredients a \<noteq> NotArray \<and> a_instructions a \<noteq> NotArray
      \<and> isYmd (case a_createdDate a of None \<Rightarrow> today | Some d \<Rightarrow> d))"

definition recipe_model_ok :: "string \<Rightarrow> recipe_args \<Rightarrow> bool" where
  "recipe_model_ok today a = (is_recipe_id (a_recipeId a) \<and> recipe_fields_ok today a)"

text \<open>InventoryItem: an optional date is present when it is a non-empty string.\<close>

definition inventory_fields_ok :: "string \<Rightarrow> inventory_args \<Rightarrow> bool" where
  "inventory_fields_ok today b =
     (let pd = str_or_empty (b_purchaseDate b);
          ed = str_or_empty (b_expirationDate b)
      in b_userId b \<noteq> [] \<and> b_ingredientName b \<noteq> []
         \<and> nonneg_finite (b_quantity b)
         \<and> b_unit b \<noteq> [] \<and> b_category b \<noteq> [] \<and> b_location b \<noteq> []
         \<and> nonneg_finite (case b_cost b of None \<Rightarrow> Fin 0 | Some c \<Rightarrow> c)
         \<and> (pd = [] \<or> isYmd pd)
         \<and> (ed = [] \<or> isYmd ed)
         \<and> (pd = [] \<or> ed = [] \<or> \<not> str_less ed pd)
         \<and> isYmd (case b_createdDate b of None \<Rightarrow> today | Some d \<Rightarrow> d))"

definition inventory_model_ok :: "string \<Rightarrow> inventory_args \<Rightarrow> bool" where
  "inventory_model_ok today b =
     (is_inventory_id (b_inventoryId b) \<and> inventory_fields_ok today b)"

text \<open>The maximum numeric suffix among the ids of a collection, 0 for the empty one.\<close>

definition recipe_max_suffix :: "recipe list \<Rightarrow> nat" where
  "recipe_max_suffix recipes = Max (insert 0 ((\<lambda>r. recipe_id_num (recipeId r)) ` set recipes))"

definition inventory_max_suffix :: "inventory_item list \<Rightarrow> nat" where
  "inventory_max_suffix items =
     Max (insert 0 ((\<lambda>i. inventory_id_num (inventoryId i)) ` set items))"

text \<open>A collection whose only record carries the last id of the format.\<close>

definition last_id_recipes :: "recipe list" where
  "last_id_recipes =
     [\<lparr> recipeId = ''R-99999'', title = ''Plain Rice'', chef = ''Aiko'',
         ingredients = [''1 cup rice''], instructions = [''Boil''],
         mealType = ''Dinner'', cuisineType = ''Japanese'', prepTime = Fin 20,
         difficulty = ''Easy'', servings = Fin 2, createdDate = ''2025-07-20'' \<rparr>]"

text \<open>Collections whose records carry ids outside the format.\<close>

definition odd_id_recipes :: "recipe list" where
  "odd_id_recipes =
     [\<lparr> recipeId = ''R-7'', title = ''Plain Rice'', chef = ''Aiko'',
         ingredients = [''1 cup rice''], instructions = [''Boil''],
         mealType = ''Dinner'', cuisineType = ''Japanese'', prepTime = Fin 20,
         difficulty = ''Easy'', servings = Fin 2, createdDate = ''2025-07-20'' \<rparr>]"

definition odd_id_inventory :: "inventory_item list" where
  "odd_id_inventory =
     [\<lparr> inventoryId = ''I-0000012'', userId = ''TakumiWatanabe'',
         ingredientName = ''Salt'', quantity = Fin 1, i_unit = ''kg'',
         category = ''Spices'', purchaseDate = ''2025-07-18'', expirationDate = [],
         location = ''Pantry'', cost = Fin 1, i_createdDate = ''2025-07-18'' \<rparr>]"

text \<open>
  A valid Recipe payload: the constraints of the data model on the fields a caller
  supplies, text fields read after trimming and numeric fields through \<open>Number\<close>, as
  \<open>add\<close> reads them.
\<close>

definition recipe_payload_valid :: "recipe_payload \<Rightarrow> bool" where
  "recipe_payload_valid p =
     (trim (str_or_empty (p_title p)) \<noteq> []
      \<and> trim (str_or_empty (p_chef p)) \<noteq> []
      \<and> pos_finite (ToNumber (p_prepTime p))
      \<and> trim (str_or_empty (p_difficulty p)) \<in> {''Easy'', ''Medium'', ''Hard''}
      \<and> pos_finite (ToNumber (p_servings p)))"

text \<open>
  A valid inventory payload: the constraints of the data model on the fields a caller
  supplies, after the aliases and defaults of \<open>add\<close> (\<open>name\<close> for \<open>ingredientName\<close>,
  \<open>pricePerUnit\<close> for \<open>cost\<close>, \<open>expiry\<close> for \<open>expirationDate\<close>, \<open>Unknown\<close> for an absent
  location, the current date for an absent purchase or creation date).
\<close>

definition inventory_payload_valid :: "string \<Rightarrow> inventory_payload \<Rightarrow> bool" where
  "inventory_payload_valid today q =
     (let pd = str_or_empty (str_or (q_purchaseDate q) (Some today));
          ed = str_or_empty (str_or (q_expirationDate q) (q_expiry q));
          cd = str_or_empty (str_or (q_createdDate q) (Some today))
      in trim (str_or_empty (q_userId q)) \<noteq> []
         \<and> trim (str_or_empty (str_or (q_ingredientName q) (q_name q))) \<noteq> []
         \<and> nonneg_finite (ToNumber (q_quantity q))
         \<and> trim (str_or_empty (q_unit q)) \<noteq> []
         \<and> trim (str_or_empty (q_category q)) \<noteq> []
         \<and> trim (str_or_empty (str_or (q_location q) (Some ''Unknown''))) \<noteq> []
         \<and> nonneg_finite (cost_of (q_cost q) (q_pricePerUnit q))
         \<and> (pd = [] \<or> isYmd pd)
         \<and> (ed = [] \<or> isYmd ed)
         \<and> (pd = [] \<or> ed = [] \<or> \<not> str_less ed pd)
         \<and> isYmd cd)"

section \<open>Request validation and the inventory route\<close>






text \<open>The identity the inventory route falls back to.\<close>

definition default_userId :: string where
  "default_userId = ''TakumiWatanabe-00000001''"


text \<open>The sample inventory payload with a user of its own.\<close>

definition sample_inventory_payload_user :: inventory_payload where
  "sample_inventory_payload_user = sample_inventory_payload\<lparr>q_userId := Some ''u-17''\<rparr>"

section \<open>Search and scaling\<close>

text \<open>\<open>hay.includes(needle)\<close>: the needle starts at some position of the haystack.\<close>

fun starts_with :: "string \<Rightarrow> string \<Rightarrow> bool" where
  "starts_with _ [] = True"
| "starts_with [] (_ # _) = False"
| "starts_with (x # xs) (y # ys) = (x = y \<and> starts_with xs ys)"

fun str_includes :: "string \<Rightarrow> string \<Rightarrow> bool" where
  "str_includes [] needle = (needle = [])"
| "str_includes (h # t) needle = (starts_with (h # t) needle \<or> str_includes t needle)"

text \<open>\<open>textIncludes(haystack, needle)\<close> on two strings.\<close>

definition textIncludes :: "string \<Rightarrow> string \<Rightarrow> bool" where
  "textIncludes haystack needle = str_includes (toLowerCase haystack) (toLowerCase needle)"

text \<open>The characters the regular expression \<open>.\<close> does not match, below 256: LF and CR.\<close>

definition is_line_terminator :: "char \<Rightarrow> bool" where
  "is_line_terminator c = (c = CHR 0x0A \<or> c = CHR 0x0D)"

text \<open>
  \<open>String(line).match(/^\s*([0-9]+(?:\.[0-9]+)?)\s*(.*)$/)\<close>: the two groups of the match,
  or \<open>None\<close>. Every quantifier is greedy. The leading white space and the digits are
  maximal in any match; the fraction is taken when a point and a digit follow; the white
  space after the number is skipped. The rest must reach the end of the string, which
  \<open>.\<close> does exactly when no line terminator is left; giving back characters to an
  earlier quantifier only moves the start of the rest to the left, so no other attempt
  succeeds when this one fails.
\<close>

definition match_line :: "string \<Rightarrow> (string \<times> string) option" where
  "match_line line =
     (let s1 = dropWhile is_space line;
          ip = takeWhile is_digit s1;
          r1 = dropWhile is_digit s1;
          frac = (r1 \<noteq> [] \<and> hd r1 = CHR ''.'' \<and> takeWhile is_digit (tl r1) \<noteq> []);
          tok = (if frac then ip @ ''.'' @ takeWhile is_digit (tl r1) else ip);
          r2 = (if frac then dropWhile is_digit (tl r1) else r1);
          rest = dropWhile is_space r2
      in if ip = [] \<or> list_ex is_line_terminator rest then None else Some (tok, rest))"

text \<open>\<open>scaleLine(line, scale)\<close>. The unary plus in front of \<open>toFixed(2)\<close> reads the string
  back as a Number; the template string writes it out again.\<close>

definition scaleLine :: "string \<Rightarrow> jsnum \<Rightarrow> string" where
  "scaleLine line scale =
     (case match_line line of
        None \<Rightarrow> line
      | Some (tok, rest) \<Rightarrow>
          let qty = parseFloat tok
          in if \<not> isFinite qty then line
             else
               let scaled = StringToNumber (toFixed2 (num_mul qty scale))
               in trim (num_to_string scaled @ '' '' @ rest))"

text \<open>The query string of a search request: each parameter absent or a string.\<close>

record search_query =
  sq_query :: "string option"
  sq_scale :: "string option"

text \<open>An element of \<open>results\<close>: the recipe spread out, and the three computed fields.\<close>

record search_result =
  sr_recipe :: recipe
  servingsScaled :: jsnum
  ingredientsScaled :: "string list"
  sr_scale :: jsnum

text \<open>What the handler passes to the view.\<close>

record search_view =
  v_results :: "search_result list"
  v_count :: nat
  v_query :: string
  v_scale :: jsnum
  v_hasSearched :: bool

text \<open>The sanitised scale: \<open>parseFloat(req.query.scale)\<close>, where an absent parameter is read
  as the string \<open>undefined\<close>; clamped when finite, 1 otherwise.\<close>

definition search_scale :: "string option \<Rightarrow> jsnum" where
  "search_scale v =
     (let rawScale = parseFloat (case v of None \<Rightarrow> ''undefined'' | Some s \<Rightarrow> s)
      in if isFinite rawScale then Math_min (Fin 5) (Math_max (Fin (1 / 4)) rawScale)
         else Fin 1)"

text \<open>The predicate of \<open>recipes.filter\<close> in the search handler.\<close>

definition search_matches :: "string \<Rightarrow> recipe \<Rightarrow> bool" where
  "search_matches query r =
     (if query = [] then True
      else textIncludes (title r) query \<or> textIncludes (chef r) query
           \<or> textIncludes (mealType r) query \<or> textIncludes (cuisineType r) query
           \<or> list_ex (\<lambda>x. textIncludes x query) (ingredients r)
           \<or> list_ex (\<lambda>x. textIncludes x query) (instructions r))"

text \<open>The function of \<open>filtered.map\<close>.\<close>

definition search_scaled :: "jsnum \<Rightarrow> recipe \<Rightarrow> search_result" where
  "search_scaled scale r =
     \<lparr> sr_recipe = r,
       servingsScaled =
         Math_max (Fin 1)
           (Math_round (num_mul (if truthy_num (servings r) then servings r else Fin 1) scale)),
       ingredientsScaled = map (\<lambda>line. scaleLine line scale) (ingredients r),
       sr_scale = scale \<rparr>"

text \<open>The handler of \<open>GET /search-recipe-00000001\<close>.\<close>

definition search_recipe :: "recipe list \<Rightarrow> search_query \<Rightarrow> search_view" where
  "search_recipe recipes req =
     (let hasSearched = (sq_query req \<noteq> None \<or> sq_scale req \<noteq> None);
          query = trim (str_or_empty (sq_query req));
          scale = search_scale (sq_scale req);
          results = (if hasSearched
                     then map (search_scaled scale) (filter (search_matches query) recipes)
                     else [])
      in \<lparr> v_results = results, v_count = length results, v_query = query,
           v_scale = scale, v_hasSearched = hasSearched \<rparr>)"

text \<open>
  The specification's search condition. A query is a case-insensitive substring of a text
  when its lower-case form occurs in the lower-case form of the text as a contiguous
  piece; a record matches when that holds for its title, chef, meal type or cuisine type,
  or for a single entry of its ingredients or of its instructions.
\<close>

definition ci_substring :: "string \<Rightarrow> string \<Rightarrow> bool" where
  "ci_substring q s = sublist (toLowerCase q) (toLowerCase s)"

definition ci_match :: "string \<Rightarrow> recipe \<Rightarrow> bool" where
  "ci_match q r =
     (ci_substring q (title r) \<or> ci_substring q (chef r)
      \<or> ci_substring q (mealType r) \<or> ci_substring q (cuisineType r)
      \<or> (\<exists>x\<in>set (ingredients r). ci_substring q x)
      \<or> (\<exists>x\<in>set (instructions r). ci_substring q x))"

section \<open>Identifiers\<close>

lemma is_digit_char_of: "d < 10 \<Longrightarrow> is_digit (char_of (48 + (d::nat)))"
  by (simp add: is_digit_def)

lemma nat_digits_all_digits: "list_all is_digit (nat_digits n)"
proof (induction n rule: nat_digits.induct)
  case (1 n)
  show ?case
  proof (cases "n < 10")
    case True
    then show ?thesis by (simp add: nat_digits.simps [of n] is_digit_char_of)
  next
    case False
    then have "list_all is_digit (nat_digits (n div 10))" using 1 by simp
    moreover have "is_digit (char_of (48 + n mod 10))" by (rule is_digit_char_of) simp
    ultimately show ?thesis using False by (simp add: nat_digits.simps [of n])
  qed
qed

lemma nat_digits_length_le: "n < 10 ^ k \<Longrightarrow> 0 < k \<Longrightarrow> length (nat_digits n) \<le> k"
proof (induction n arbitrary: k rule: nat_digits.induct)
  case (1 n)
  show ?case
  proof (cases "n < 10")
    case True
    then show ?thesis using 1(3) by (simp add: nat_digits.simps [of n])
  next
    case False
    obtain j where k: "k = Suc j" using 1(3) by (cases k) auto
    have "j \<noteq> 0" using False 1(2) k by (cases j) auto
    moreover have "n div 10 < 10 ^ j" using 1(2) k by (simp add: less_mult_imp_div_less mult.commute)
    ultimately have "length (nat_digits (n div 10)) \<le> j" using 1(1) [OF False, of j] by simp
    then show ?thesis using False k by (simp add: nat_digits.simps [of n])
  qed
qed

lemma nat_digits_length_gt: "10 ^ k \<le> n \<Longrightarrow> k < length (nat_digits n)"
proof (induction n arbitrary: k rule: nat_digits.induct)
  case (1 n)
  show ?case
  proof (cases "n < 10")
    case True
    have "k = 0"
    proof (rule ccontr)
      assume "k \<noteq> 0"
      then obtain j where "k = Suc j" by (cases k) auto
      then have b: "(10::nat) * 10 ^ j \<le> n" using 1(2) by simp
      have "(1::nat) \<le> 10 ^ j" by simp
      then have "(10::nat) \<le> 10 * 10 ^ j" by simp
      then show False using b True by linarith
    qed
    then show ?thesis using True by (simp add: nat_digits.simps [of n])
  next
    case False
    show ?thesis
    proof (cases k)
      case 0
      then show ?thesis using False by (simp add: nat_digits.simps [of n])
    next
      case (Suc j)
      then have "10 ^ j \<le> n div 10" using 1(2) by (simp add: less_eq_div_iff_mult_less_eq mult.commute)
      then have "j < length (nat_digits (n div 10))" using 1(1) [OF False] by simp
      then show ?thesis using False Suc by (simp add: nat_digits.simps [of n])
    qed
  qed
qed

lemma nat_digits_length_le5: "length (nat_digits n) \<le> 5 \<longleftrightarrow> n < 100000"
proof
  assume "length (nat_digits n) \<le> 5"
  then show "n < 100000" using nat_digits_length_gt [of 5 n] by (cases "n < 100000") auto
next
  assume "n < 100000"
  then show "length (nat_digits n) \<le> 5" using nat_digits_length_le [of n 5] by simp
qed

lemma nat_digits_nonempty: "nat_digits n \<noteq> []"
  by (simp add: nat_digits.simps [of n])

lemma padStart0_all_digits: "list_all is_digit s \<Longrightarrow> list_all is_digit (padStart0 w s)"
  by (auto simp: padStart0_def list_all_iff is_digit_def)

lemma length_padStart0: "length (padStart0 w s) = max w (length s)"
  by (simp add: padStart0_def)

lemma is_recipe_id_formatId: "is_recipe_id (Recipe_formatId n) \<longleftrightarrow> n < 100000"
  using nat_digits_length_le5 [of n]
  by (auto simp: is_recipe_id_def Recipe_formatId_def length_padStart0 padStart0_all_digits
      nat_digits_all_digits)

lemma is_inventory_id_formatId: "is_inventory_id (InventoryItem_formatId n) \<longleftrightarrow> n < 100000"
  using nat_digits_length_le5 [of n]
  by (auto simp: is_inventory_id_def InventoryItem_formatId_def length_padStart0 padStart0_all_digits
      nat_digits_all_digits)

lemma foldl_max_Max: "foldl max (a::nat) xs = Max (insert a (set xs))"
proof (induction xs arbitrary: a)
  case Nil
  then show ?case by simp
next
  case (Cons x xs)
  have "Max (insert (max a x) (set xs)) = Max (insert a (insert x (set xs)))"
    by (cases "set xs = {}") (auto simp: max.assoc)
  then show ?case using Cons by simp
qed

lemma pos_finite_iff: "pos_finite x \<longleftrightarrow> isFinite x \<and> \<not> num_le x (Fin 0)"
  by (cases x) (auto simp: pos_finite_def isFinite_def)

lemma nonneg_finite_iff: "nonneg_finite x \<longleftrightarrow> isFinite x \<and> \<not> num_lt x (Fin 0)"
  by (cases x) (auto simp: nonneg_finite_def isFinite_def)

lemma recipe_nextNum_eq: "recipe_nextNum recipes = recipe_max_suffix recipes + 1"
  by (simp add: recipe_nextNum_def recipe_max_suffix_def foldl_max_Max image_image)

lemma inventory_nextNum_eq: "inventory_nextNum items = inventory_max_suffix items + 1"
  by (simp add: inventory_nextNum_def inventory_max_suffix_def foldl_max_Max image_image)

section \<open>Trimming\<close>

lemma trimEnd_prefix: "\<exists>x. d = trimEnd d @ x"
proof -
  have "d = rev (takeWhile is_space (rev d) @ dropWhile is_space (rev d))" by simp
  then have "d = trimEnd d @ rev (takeWhile is_space (rev d))"
    by (simp only: rev_append trimEnd_def)
  then show ?thesis ..
qed

lemma trimStart_trim: "trimStart (trim s) = trim s"
proof (cases "trim s = []")
  case True
  then show ?thesis by (simp add: trimStart_def)
next
  case False
  obtain x where d: "trimStart s = trim s @ x"
    using trimEnd_prefix [of "trimStart s"] by (auto simp: trim_def)
  then have "trimStart s \<noteq> []" using False by auto
  then have "\<not> is_space (hd (trimStart s))"
    unfolding trimStart_def by (rule hd_dropWhile)
  then have "\<not> is_space (hd (trim s))" using d False by (metis hd_append2)
  then show ?thesis using False by (cases "trim s") (auto simp: trimStart_def)
qed

lemma trimEnd_trim: "trimEnd (trim s) = trim s"
  by (simp add: trim_def trimEnd_def)

lemma trim_idem: "trim (trim s) = trim s"
  using trimStart_trim [of s] trimEnd_trim [of s] by (simp add: trim_def [of "trim s"])

lemma trim_Nil: "trim [] = []"
  by (simp add: trim_def trimStart_def trimEnd_def)

section \<open>Recipe.add\<close>

lemma Recipe_new_ok_iff: "(\<exists>r. Recipe_new today a = Inr r) \<longleftrightarrow> recipe_model_ok today a"
  by (auto simp: Recipe_new_def recipe_model_ok_def recipe_fields_ok_def pos_finite_iff Let_def)

lemma Recipe_new_fail_iff: "(\<exists>e. Recipe_new today a = Inl e) \<longleftrightarrow> \<not> recipe_model_ok today a"
  using Recipe_new_ok_iff [of today a] by (cases "Recipe_new today a") auto

lemma Recipe_new_recipeId: "Recipe_new today a = Inr r \<Longrightarrow> recipeId r = a_recipeId a"
  by (auto simp: Recipe_new_def Let_def split: if_splits)

lemma Recipe_new_createdDate:
  "Recipe_new today a = Inr r \<Longrightarrow>
     createdDate r = (case a_createdDate a of None \<Rightarrow> today | Some d \<Rightarrow> d)"
  by (auto simp: Recipe_new_def Let_def split: if_splits)

lemma recipe_fields_ok_newRecipe:
  "recipe_fields_ok today (Recipe_add_newRecipe today recipes p)
     \<longleftrightarrow> recipe_payload_valid p \<and> isYmd today"
  by (auto simp: recipe_fields_ok_def Recipe_add_newRecipe_def recipe_payload_valid_def trim_idem)

lemma recipe_model_ok_newRecipe:
  "recipe_model_ok today (Recipe_add_newRecipe today recipes p)
     \<longleftrightarrow> recipe_max_suffix recipes < 99999 \<and> recipe_payload_valid p \<and> isYmd today"
proof -
  have "a_recipeId (Recipe_add_newRecipe today recipes p)
          = Recipe_formatId (recipe_max_suffix recipes + 1)"
    by (simp add: Recipe_add_newRecipe_def recipe_nextNum_eq)
  then show ?thesis
    by (auto simp: recipe_model_ok_def recipe_fields_ok_newRecipe is_recipe_id_formatId)
qed

lemma Recipe_add_Inr:
  assumes "Recipe_add today recipes p = (Inr r, rs)"
  shows "Recipe_new today (Recipe_add_newRecipe today recipes p) = Inr r" and "rs = recipes @ [r]"
  using assms by (auto simp: Recipe_add_def split: if_splits sum.splits)

lemma Recipe_add_Inl:
  assumes "Recipe_add today recipes p = (Inl e, rs)"
  shows "rs = recipes"
  using assms by (auto simp: Recipe_add_def split: if_splits sum.splits)

lemma Recipe_add_ok:
  assumes "recipe_model_ok today (Recipe_add_newRecipe today recipes p)"
  shows "\<exists>r. Recipe_add today recipes p = (Inr r, recipes @ [r])
            \<and> Recipe_new today (Recipe_add_newRecipe today recipes p) = Inr r"
proof -
  obtain r where r: "Recipe_new today (Recipe_add_newRecipe today recipes p) = Inr r"
    using assms Recipe_new_ok_iff by blast
  have "recipe_payload_valid p" using assms by (simp add: recipe_model_ok_newRecipe)
  then have "trim (str_or_empty (p_title p)) \<noteq> []" "trim (str_or_empty (p_chef p)) \<noteq> []"
    by (simp_all add: recipe_payload_valid_def)
  then show ?thesis using r by (simp add: Recipe_add_def)
qed

lemma Recipe_add_fail:
  assumes "\<not> recipe_model_ok today (Recipe_add_newRecipe today recipes p)"
  shows "\<exists>e. Recipe_add today recipes p = (Inl e, recipes)"
proof -
  obtain e where "Recipe_new today (Recipe_add_newRecipe today recipes p) = Inl e"
    using assms Recipe_new_fail_iff by blast
  then show ?thesis by (simp add: Recipe_add_def)
qed

lemma Recipe_add_id_overflow:
  assumes "recipe_payload_valid p" and "99999 \<le> recipe_max_suffix recipes"
  shows "Recipe_add today recipes p = (Inl ''recipeId must be in 'R-00001' format'', recipes)"
proof -
  have "\<not> is_recipe_id (Recipe_formatId (recipe_nextNum recipes))"
    using assms(2) by (simp add: is_recipe_id_formatId recipe_nextNum_eq)
  then have "Recipe_new today (Recipe_add_newRecipe today recipes p)
               = Inl ''recipeId must be in 'R-00001' format''"
    by (simp add: Recipe_new_def Recipe_add_newRecipe_def)
  moreover have "trim (str_or_empty (p_title p)) \<noteq> []" "trim (str_or_empty (p_chef p)) \<noteq> []"
    using assms(1) by (simp_all add: recipe_payload_valid_def)
  ultimately show ?thesis by (simp add: Recipe_add_def)
qed

lemma Recipe_formatId_1: "Recipe_formatId 1 = ''R-00001''"
  by code_simp

lemma recipe_max_suffix_Nil: "recipe_max_suffix [] = 0"
  by (simp add: recipe_max_suffix_def)

text \<open>
  Claim C1, as amended. Let \<open>m\<close> be the maximum numeric suffix among the ids of the
  collection (0 when it is empty). For every valid payload, while the clock gives a
  \<open>YYYY-MM-DD\<close> date and \<open>m < 99999\<close>, \<open>add\<close> appends a record whose \<open>recipeId\<close> is
  \<open>formatId(m + 1)\<close>; every record \<open>add\<close> returns has that id; the first add into an empty
  collection yields \<open>R-00001\<close>. At \<open>m = 99999\<close> the next id \<open>R-100000\<close> no longer has the
  five-digit format: the constructor rejects it and nothing is stored.
\<close>

theorem Recipe_add_next_id:
  "(recipe_payload_valid p \<and> isYmd today \<and> recipe_max_suffix recipes < 99999 \<longrightarrow>
      (\<exists>r. Recipe_add today recipes p = (Inr r, recipes @ [r])
           \<and> recipeId r = Recipe_formatId (recipe_max_suffix recipes + 1)))
   \<and> (\<forall>r rs. Recipe_add today recipes p = (Inr r, rs) \<longrightarrow>
         recipeId r = Recipe_formatId (recipe_max_suffix recipes + 1))
   \<and> (recipe_payload_valid p \<and> isYmd today \<longrightarrow>
         (\<exists>r. Recipe_add today [] p = (Inr r, [r]) \<and> recipeId r = ''R-00001''))
   \<and> (recipe_payload_valid p \<and> recipe_max_suffix recipes = 99999 \<longrightarrow>
         Recipe_add today recipes p = (Inl ''recipeId must be in 'R-00001' format'', recipes))"
proof (intro conjI impI allI)
  assume "recipe_payload_valid p \<and> isYmd today \<and> recipe_max_suffix recipes < 99999"
  then have "recipe_model_ok today (Recipe_add_newRecipe today recipes p)"
    by (simp add: recipe_model_ok_newRecipe)
  then obtain r where "Recipe_add today recipes p = (Inr r, recipes @ [r])"
      and "Recipe_new today (Recipe_add_newRecipe today recipes p) = Inr r"
    using Recipe_add_ok by blast
  then show "\<exists>r. Recipe_add today recipes p = (Inr r, recipes @ [r])
           \<and> recipeId r = Recipe_formatId (recipe_max_suffix recipes + 1)"
    by (auto dest: Recipe_new_recipeId simp: Recipe_add_newRecipe_def recipe_nextNum_eq)
next
  fix r rs
  assume "Recipe_add today recipes p = (Inr r, rs)"
  then have "Recipe_new today (Recipe_add_newRecipe today recipes p) = Inr r"
    by (rule Recipe_add_Inr)
  then show "recipeId r = Recipe_formatId (recipe_max_suffix recipes + 1)"
    by (auto dest: Recipe_new_recipeId simp: Recipe_add_newRecipe_def recipe_nextNum_eq)
next
  assume "recipe_payload_valid p \<and> isYmd today"
  then have "recipe_model_ok today (Recipe_add_newRecipe today [] p)"
    by (simp add: recipe_model_ok_newRecipe recipe_max_suffix_Nil)
  then obtain r where "Recipe_add today [] p = (Inr r, [] @ [r])"
      and "Recipe_new today (Recipe_add_newRecipe today [] p) = Inr r"
    using Recipe_add_ok by blast
  moreover from this have "recipeId r = Recipe_formatId (recipe_nextNum [])"
    by (auto dest: Recipe_new_recipeId simp: Recipe_add_newRecipe_def)
  then have "recipeId r = ''R-00001''"
    using Recipe_formatId_1 by (simp add: recipe_nextNum_eq recipe_max_suffix_Nil)
  ultimately show "\<exists>r. Recipe_add today [] p = (Inr r, [r]) \<and> recipeId r = ''R-00001''"
    by auto
next
  assume "recipe_payload_valid p \<and> recipe_max_suffix recipes = 99999"
  then show "Recipe_add today recipes p = (Inl ''recipeId must be in 'R-00001' format'', recipes)"
    using Recipe_add_id_overflow [of p recipes today] by simp
qed

theorem Recipe_add_next_id_witness:
  "recipe_payload_valid sample_recipe_payload \<and> isYmd ''2025-07-25''
   \<and> recipe_max_suffix seed_recipes < 99999
   \<and> (\<exists>r. Recipe_add ''2025-07-25'' seed_recipes sample_recipe_payload
              = (Inr r, seed_recipes @ [r])
          \<and> recipeId r = ''R-00003'')"
proof -
  have h: "recipe_payload_valid sample_recipe_payload \<and> isYmd ''2025-07-25''
           \<and> recipe_max_suffix seed_recipes < 99999"
    by code_simp
  have f: "Recipe_formatId (recipe_max_suffix seed_recipes + 1) = ''R-00003''"
    by code_simp
  from h Recipe_add_next_id [of sample_recipe_payload "''2025-07-25''" seed_recipes]
  obtain r where "Recipe_add ''2025-07-25'' seed_recipes sample_recipe_payload
              = (Inr r, seed_recipes @ [r])"
     and "recipeId r = Recipe_formatId (recipe_max_suffix seed_recipes + 1)"
    by blast
  with h f show ?thesis by (intro conjI exI [of _ r]) simp_all
qed

text \<open>The claim as written fails once the ids of the format are used up: with a record
  \<open>R-99999\<close> in the collection a valid payload is refused.\<close>

theorem Recipe_add_next_id_counterexample:
  "recipe_payload_valid sample_recipe_payload \<and> isYmd ''2025-07-25''
   \<and> recipe_max_suffix last_id_recipes = 99999
   \<and> Recipe_add ''2025-07-25'' last_id_recipes sample_recipe_payload
       = (Inl ''recipeId must be in 'R-00001' format'', last_id_recipes)"
  by code_simp

section \<open>InventoryItem.add\<close>

lemma truthy_str_iff: "truthy_str v \<longleftrightarrow> str_or_empty v \<noteq> []"
  by (cases v) (auto simp: truthy_str_def str_or_empty_def)

lemma trim_nonempty: "trim s \<noteq> [] \<Longrightarrow> s \<noteq> []"
  using trim_Nil by auto

lemma InventoryItem_new_fail:
  assumes "\<not> inventory_model_ok today b"
  shows "\<exists>e. InventoryItem_new today b = Inl e"
proof (cases "InventoryItem_new today b")
  case (Inl e)
  then show ?thesis by blast
next
  case (Inr i)
  then have "inventory_model_ok today b"
    by (auto simp: InventoryItem_new_def inventory_model_ok_def inventory_fields_ok_def
        nonneg_finite_iff truthy_str_iff Let_def trim_Nil split: if_splits)
  with assms show ?thesis by simp
qed

lemma InventoryItem_new_ok:
  assumes "inventory_model_ok today b"
    and "trim (b_userId b) = b_userId b" and "trim (b_ingredientName b) = b_ingredientName b"
    and "trim (b_unit b) = b_unit b" and "trim (b_category b) = b_category b"
    and "trim (b_location b) = b_location b"
  shows "\<exists>i. InventoryItem_new today b = Inr i"
  using assms
  by (auto simp: InventoryItem_new_def inventory_model_ok_def inventory_fields_ok_def
      nonneg_finite_iff truthy_str_iff Let_def)

lemma InventoryItem_new_fields:
  assumes "InventoryItem_new today b = Inr i"
  shows "inventoryId i = b_inventoryId b"
    and "userId i = trim (b_userId b)"
    and "i_createdDate i = (case b_createdDate b of None \<Rightarrow> today | Some d \<Rightarrow> d)"
  using assms by (auto simp: InventoryItem_new_def Let_def split: if_splits)

lemma inventory_fields_ok_newItemRaw:
  "inventory_fields_ok today (InventoryItem_add_newItemRaw today items q)
     \<longleftrightarrow> inventory_payload_valid today q"
  by (simp add: inventory_fields_ok_def InventoryItem_add_newItemRaw_def
      inventory_payload_valid_def Let_def str_or_empty_def)

lemma inventory_model_ok_newItemRaw:
  "inventory_model_ok today (InventoryItem_add_newItemRaw today items q)
     \<longleftrightarrow> inventory_max_suffix items < 99999 \<and> inventory_payload_valid today q"
proof -
  have "b_inventoryId (InventoryItem_add_newItemRaw today items q)
          = InventoryItem_formatId (inventory_max_suffix items + 1)"
    by (simp add: InventoryItem_add_newItemRaw_def inventory_nextNum_eq)
  then show ?thesis
    by (auto simp: inventory_model_ok_def inventory_fields_ok_newItemRaw is_inventory_id_formatId)
qed

lemma InventoryItem_add_Inr:
  assumes "InventoryItem_add today items q = (Inr i, is)"
  shows "InventoryItem_new today (InventoryItem_add_newItemRaw today items q) = Inr i"
    and "is = items @ [i]"
  using assms by (auto simp: InventoryItem_add_def split: if_splits sum.splits)

lemma InventoryItem_add_Inl:
  assumes "InventoryItem_add today items q = (Inl e, is)"
  shows "is = items"
  using assms by (auto simp: InventoryItem_add_def split: if_splits sum.splits)

lemma InventoryItem_add_ok:
  assumes "inventory_model_ok today (InventoryItem_add_newItemRaw today items q)"
  shows "\<exists>i. InventoryItem_add today items q = (Inr i, items @ [i])
            \<and> InventoryItem_new today (InventoryItem_add_newItemRaw today items q) = Inr i"
proof -
  have "\<exists>i. InventoryItem_new today (InventoryItem_add_newItemRaw today items q) = Inr i"
    by (rule InventoryItem_new_ok [OF assms])
       (simp_all add: InventoryItem_add_newItemRaw_def trim_idem)
  then obtain i
    where i: "InventoryItem_new today (InventoryItem_add_newItemRaw today items q) = Inr i" ..
  have "inventory_payload_valid today q" using assms by (simp add: inventory_model_ok_newItemRaw)
  then have "trim (str_or_empty (str_or (q_ingredientName q) (q_name q))) \<noteq> []"
      "trim (str_or_empty (q_userId q)) \<noteq> []"
    by (simp_all add: inventory_payload_valid_def Let_def)
  then show ?thesis using i by (simp add: InventoryItem_add_def)
qed

lemma InventoryItem_add_fail:
  assumes "\<not> inventory_model_ok today (InventoryItem_add_newItemRaw today items q)"
  shows "\<exists>e. InventoryItem_add today items q = (Inl e, items)"
proof -
  obtain e where "InventoryItem_new today (InventoryItem_add_newItemRaw today items q) = Inl e"
    using assms InventoryItem_new_fail by blast
  then show ?thesis by (simp add: InventoryItem_add_def)
qed

section \<open>The claims about add\<close>

text \<open>
  Claim C2. For every payload of either repository: when the entity that \<open>add\<close> builds
  from the payload violates any constraint of the data model, \<open>add\<close> fails with the
  message of the validation error and the collection is exactly as it was; whenever
  \<open>add\<close> fails, nothing has been inserted, removed or changed; and when no constraint is
  violated the collection grows by exactly the returned record.
\<close>

theorem add_all_or_nothing:
  "(\<not> recipe_model_ok today (Recipe_add_newRecipe today recipes p) \<longrightarrow>
      (\<exists>e. Recipe_add today recipes p = (Inl e, recipes)))
   \<and> (\<not> inventory_model_ok today (InventoryItem_add_newItemRaw today items q) \<longrightarrow>
      (\<exists>e. InventoryItem_add today items q = (Inl e, items)))
   \<and> (\<forall>e rs. Recipe_add today recipes p = (Inl e, rs) \<longrightarrow> rs = recipes)
   \<and> (\<forall>e is. InventoryItem_add today items q = (Inl e, is) \<longrightarrow> is = items)
   \<and> (recipe_model_ok today (Recipe_add_newRecipe today recipes p) \<longrightarrow>
      (\<exists>r. Recipe_add today recipes p = (Inr r, recipes @ [r])))
   \<and> (inventory_model_ok today (InventoryItem_add_newItemRaw today items q) \<longrightarrow>
      (\<exists>i. InventoryItem_add today items q = (Inr i, items @ [i])))"
proof (intro conjI impI allI)
  assume "\<not> recipe_model_ok today (Recipe_add_newRecipe today recipes p)"
  then show "\<exists>e. Recipe_add today recipes p = (Inl e, recipes)" by (rule Recipe_add_fail)
next
  assume "\<not> inventory_model_ok today (InventoryItem_add_newItemRaw today items q)"
  then show "\<exists>e. InventoryItem_add today items q = (Inl e, items)"
    by (rule InventoryItem_add_fail)
next
  fix e rs assume "Recipe_add today recipes p = (Inl e, rs)"
  then show "rs = recipes" by (rule Recipe_add_Inl)
next
  fix e "is" assume "InventoryItem_add today items q = (Inl e, is)"
  then show "is = items" by (rule InventoryItem_add_Inl)
next
  assume "recipe_model_ok today (Recipe_add_newRecipe today recipes p)"
  then show "\<exists>r. Recipe_add today recipes p = (Inr r, recipes @ [r])"
    using Recipe_add_ok by blast
next
  assume "inventory_model_ok today (InventoryItem_add_newItemRaw today items q)"
  then show "\<exists>i. InventoryItem_add today items q = (Inr i, items @ [i])"
    using InventoryItem_add_ok by blast
qed

text \<open>A recipe payload without a usable \<open>prepTime\<close> and an inventory payload whose
  expiration date precedes its purchase date: both are refused, both collections stay.\<close>

theorem add_all_or_nothing_witness:
  "\<not> recipe_model_ok ''2025-07-25''
        (Recipe_add_newRecipe ''2025-07-25'' seed_recipes
           (sample_recipe_payload\<lparr>p_prepTime := Str ''soon''\<rparr>))
   \<and> Recipe_add ''2025-07-25'' seed_recipes (sample_recipe_payload\<lparr>p_prepTime := Str ''soon''\<rparr>)
        = (Inl ''prepTime must be a number > 0'', seed_recipes)
   \<and> \<not> inventory_model_ok ''2025-07-25''
        (InventoryItem_add_newItemRaw ''2025-07-25'' seed_inventory
           (sample_inventory_payload_user\<lparr>q_expirationDate := Some ''2025-07-01''\<rparr>))
   \<and> InventoryItem_add ''2025-07-25'' seed_inventory
         (sample_inventory_payload_user\<lparr>q_expirationDate := Some ''2025-07-01''\<rparr>)
        = (Inl ''expirationDate must not be earlier than purchaseDate'', seed_inventory)
   \<and> recipe_model_ok ''2025-07-25''
        (Recipe_add_newRecipe ''2025-07-25'' seed_recipes sample_recipe_payload)
   \<and> inventory_model_ok ''2025-07-25''
        (InventoryItem_add_newItemRaw ''2025-07-25'' seed_inventory sample_inventory_payload_user)
   \<and> (\<exists>r. Recipe_add ''2025-07-25'' seed_recipes sample_recipe_payload
            = (Inr r, seed_recipes @ [r]))
   \<and> (\<exists>i. InventoryItem_add ''2025-07-25'' seed_inventory sample_inventory_payload_user
            = (Inr i, seed_inventory @ [i]))"
proof -
  have bad: "\<not> recipe_model_ok ''2025-07-25''
        (Recipe_add_newRecipe ''2025-07-25'' seed_recipes
           (sample_recipe_payload\<lparr>p_prepTime := Str ''soon''\<rparr>))"
    "\<not> inventory_model_ok ''2025-07-25''
        (InventoryItem_add_newItemRaw ''2025-07-25'' seed_inventory
           (sample_inventory_payload_user\<lparr>q_expirationDate := Some ''2025-07-01''\<rparr>))"
    by code_simp+
  have good: "recipe_model_ok ''2025-07-25''
        (Recipe_add_newRecipe ''2025-07-25'' seed_recipes sample_recipe_payload)"
    "inventory_model_ok ''2025-07-25''
        (InventoryItem_add_newItemRaw ''2025-07-25'' seed_inventory sample_inventory_payload_user)"
    by code_simp+
  have msgs: "fst (Recipe_add ''2025-07-25'' seed_recipes
                    (sample_recipe_payload\<lparr>p_prepTime := Str ''soon''\<rparr>))
                = Inl ''prepTime must be a number > 0''"
    "fst (InventoryItem_add ''2025-07-25'' seed_inventory
           (sample_inventory_payload_user\<lparr>q_expirationDate := Some ''2025-07-01''\<rparr>))
       = Inl ''expirationDate must not be earlier than purchaseDate''"
    by code_simp+
  note t1 = add_all_or_nothing [of "''2025-07-25''" seed_recipes
      "sample_recipe_payload\<lparr>p_prepTime := Str ''soon''\<rparr>" seed_inventory
      "sample_inventory_payload_user\<lparr>q_expirationDate := Some ''2025-07-01''\<rparr>"]
  note t2 = add_all_or_nothing [of "''2025-07-25''" seed_recipes
      sample_recipe_payload seed_inventory sample_inventory_payload_user]
  from t1 bad msgs have
    "Recipe_add ''2025-07-25'' seed_recipes (sample_recipe_payload\<lparr>p_prepTime := Str ''soon''\<rparr>)
        = (Inl ''prepTime must be a number > 0'', seed_recipes)"
    "InventoryItem_add ''2025-07-25'' seed_inventory
         (sample_inventory_payload_user\<lparr>q_expirationDate := Some ''2025-07-01''\<rparr>)
        = (Inl ''expirationDate must not be earlier than purchaseDate'', seed_inventory)"
    by auto
  moreover from t2 good have
    "\<exists>r. Recipe_add ''2025-07-25'' seed_recipes sample_recipe_payload
            = (Inr r, seed_recipes @ [r])"
    "\<exists>i. InventoryItem_add ''2025-07-25'' seed_inventory sample_inventory_payload_user
            = (Inr i, seed_inventory @ [i])"
    by blast+
  ultimately show ?thesis using bad good by blast
qed

text \<open>
  Claim C4, as amended. \<open>Recipe.add\<close> stores the current date as \<open>createdDate\<close> and never
  reads a \<open>createdDate\<close> of the payload. \<open>InventoryItem.add\<close> stores the payload's
  \<open>createdDate\<close> when one is supplied (a non-empty string) and the current date only
  otherwise.
\<close>

theorem add_createdDate:
  "(\<forall>r rs. Recipe_add today recipes p = (Inr r, rs) \<longrightarrow> createdDate r = today)
   \<and> Recipe_add today recipes (p\<lparr>p_createdDate := d\<rparr>) = Recipe_add today recipes p
   \<and> (\<forall>i is. InventoryItem_add today items q = (Inr i, is) \<longrightarrow>
         i_createdDate i = (case q_createdDate q of
                              None \<Rightarrow> today
                            | Some c \<Rightarrow> if c = [] then today else c))"
proof (intro conjI allI impI)
  fix r rs assume "Recipe_add today recipes p = (Inr r, rs)"
  then have "Recipe_new today (Recipe_add_newRecipe today recipes p) = Inr r"
    by (rule Recipe_add_Inr)
  then show "createdDate r = today"
    by (auto dest: Recipe_new_createdDate simp: Recipe_add_newRecipe_def)
next
  show "Recipe_add today recipes (p\<lparr>p_createdDate := d\<rparr>) = Recipe_add today recipes p"
    by (simp add: Recipe_add_def Recipe_add_newRecipe_def)
next
  fix i "is" assume "InventoryItem_add today items q = (Inr i, is)"
  then have "InventoryItem_new today (InventoryItem_add_newItemRaw today items q) = Inr i"
    by (rule InventoryItem_add_Inr)
  then have "i_createdDate i = str_or_empty (str_or (q_createdDate q) (Some today))"
    by (auto dest: InventoryItem_new_fields(3) simp: InventoryItem_add_newItemRaw_def)
  then show "i_createdDate i = (case q_createdDate q of
                              None \<Rightarrow> today
                            | Some c \<Rightarrow> if c = [] then today else c)"
    by (simp add: str_or_def str_or_empty_def truthy_str_def split: option.splits)
qed

theorem add_createdDate_witness:
  "(\<exists>r. Recipe_add ''2025-07-25'' seed_recipes
            (sample_recipe_payload\<lparr>p_createdDate := Some ''1999-12-31''\<rparr>)
          = (Inr r, seed_recipes @ [r]) \<and> createdDate r = ''2025-07-25'')
   \<and> (\<exists>i. InventoryItem_add ''2025-07-25'' seed_inventory sample_inventory_payload_user
          = (Inr i, seed_inventory @ [i]) \<and> i_createdDate i = ''2020-01-01'')"
proof -
  have g: "recipe_model_ok ''2025-07-25'' (Recipe_add_newRecipe ''2025-07-25'' seed_recipes
              (sample_recipe_payload\<lparr>p_createdDate := Some ''1999-12-31''\<rparr>))"
    "inventory_model_ok ''2025-07-25''
        (InventoryItem_add_newItemRaw ''2025-07-25'' seed_inventory sample_inventory_payload_user)"
    by code_simp+
  obtain r where r: "Recipe_add ''2025-07-25'' seed_recipes
            (sample_recipe_payload\<lparr>p_createdDate := Some ''1999-12-31''\<rparr>)
          = (Inr r, seed_recipes @ [r])"
    using Recipe_add_ok [OF g(1)] by blast
  obtain i where i: "InventoryItem_add ''2025-07-25'' seed_inventory sample_inventory_payload_user
          = (Inr i, seed_inventory @ [i])"
    using InventoryItem_add_ok [OF g(2)] by blast
  have c: "q_createdDate sample_inventory_payload_user = Some ''2020-01-01''"
    by code_simp
  have "createdDate r = ''2025-07-25''"
    using add_createdDate [where today = "''2025-07-25''" and recipes = seed_recipes
        and p = "sample_recipe_payload\<lparr>p_createdDate := Some ''1999-12-31''\<rparr>"] r
    by blast
  moreover have "i_createdDate i = ''2020-01-01''"
    using add_createdDate [where today = "''2025-07-25''" and items = seed_inventory
        and q = sample_inventory_payload_user] i c
    by auto
  ultimately show ?thesis using r i by blast
qed

text \<open>The claim as written fails for the inventory: a payload that brings its own
  \<open>createdDate\<close> is stored with it, not with the current date.\<close>

theorem add_createdDate_counterexample:
  "q_createdDate sample_inventory_payload_user = Some ''2020-01-01''
   \<and> map_sum id i_createdDate
         (fst (InventoryItem_add ''2025-07-25'' seed_inventory sample_inventory_payload_user))
       = Inr ''2020-01-01''"
  by code_simp


lemma default_userId_truthy: "truthy_str (Some default_userId)"
  by code_simp




lemma Max_insert0_all0: "\<forall>x\<in>set xs. f x = (0::nat) \<Longrightarrow> Max (insert 0 (f ` set xs)) = 0"
proof -
  assume "\<forall>x\<in>set xs. f x = 0"
  then have "insert 0 (f ` set xs) = {0}" by auto
  then show ?thesis by (simp only: Max_singleton)
qed

lemma recipe_max_suffix_malformed:
  "\<forall>r\<in>set recipes. \<not> is_recipe_id (recipeId r) \<Longrightarrow> recipe_max_suffix recipes = 0"
  unfolding recipe_max_suffix_def by (rule Max_insert0_all0) (simp add: recipe_id_num_def)

lemma inventory_max_suffix_malformed:
  "\<forall>i\<in>set items. \<not> is_inventory_id (inventoryId i) \<Longrightarrow> inventory_max_suffix items = 0"
  unfolding inventory_max_suffix_def by (rule Max_insert0_all0) (simp add: inventory_id_num_def)

lemma InventoryItem_formatId_1: "InventoryItem_formatId 1 = ''I-00001''"
  by code_simp

text \<open>
  Claim C10. In the next-id computation of both repositories a stored record whose id
  does not match \<open>R-\d{5}\<close> (respectively \<open>I-\d{5}\<close>) contributes the number 0. Hence for
  every collection whose records all have malformed ids and every valid payload, \<open>add\<close>
  succeeds and assigns \<open>R-00001\<close> (respectively \<open>I-00001\<close>).
\<close>

theorem add_malformed_ids:
  "(\<not> is_recipe_id rid \<longrightarrow> recipe_id_num rid = 0)
   \<and> (\<not> is_inventory_id iid \<longrightarrow> inventory_id_num iid = 0)
   \<and> ((\<forall>r\<in>set recipes. \<not> is_recipe_id (recipeId r))
        \<and> recipe_payload_valid p \<and> isYmd today \<longrightarrow>
      (\<exists>r. Recipe_add today recipes p = (Inr r, recipes @ [r]) \<and> recipeId r = ''R-00001''))
   \<and> ((\<forall>i\<in>set items. \<not> is_inventory_id (inventoryId i))
        \<and> inventory_payload_valid today q \<longrightarrow>
      (\<exists>i. InventoryItem_add today items q = (Inr i, items @ [i])
           \<and> inventoryId i = ''I-00001''))"
proof (intro conjI impI)
  assume "\<not> is_recipe_id rid"
  then show "recipe_id_num rid = 0" by (simp add: recipe_id_num_def)
next
  assume "\<not> is_inventory_id iid"
  then show "inventory_id_num iid = 0" by (simp add: inventory_id_num_def)
next
  assume a: "(\<forall>r\<in>set recipes. \<not> is_recipe_id (recipeId r))
        \<and> recipe_payload_valid p \<and> isYmd today"
  then have m: "recipe_max_suffix recipes = 0" by (simp add: recipe_max_suffix_malformed)
  then have "recipe_model_ok today (Recipe_add_newRecipe today recipes p)"
    using a by (simp add: recipe_model_ok_newRecipe)
  then obtain r where r: "Recipe_add today recipes p = (Inr r, recipes @ [r])"
      and "Recipe_new today (Recipe_add_newRecipe today recipes p) = Inr r"
    using Recipe_add_ok by blast
  then have "recipeId r = Recipe_formatId (recipe_nextNum recipes)"
    by (auto dest: Recipe_new_recipeId simp: Recipe_add_newRecipe_def)
  then have "recipeId r = ''R-00001''"
    using m Recipe_formatId_1 by (simp add: recipe_nextNum_eq)
  with r show "\<exists>r. Recipe_add today recipes p = (Inr r, recipes @ [r])
                 \<and> recipeId r = ''R-00001''"
    by blast
next
  assume a: "(\<forall>i\<in>set items. \<not> is_inventory_id (inventoryId i))
        \<and> inventory_payload_valid today q"
  then have m: "inventory_max_suffix items = 0" by (simp add: inventory_max_suffix_malformed)
  then have "inventory_model_ok today (InventoryItem_add_newItemRaw today items q)"
    using a by (simp add: inventory_model_ok_newItemRaw)
  then obtain i where i: "InventoryItem_add today items q = (Inr i, items @ [i])"
      and "InventoryItem_new today (InventoryItem_add_newItemRaw today items q) = Inr i"
    using InventoryItem_add_ok by blast
  then have "inventoryId i = InventoryItem_formatId (inventory_nextNum items)"
    by (auto dest: InventoryItem_new_fields(1) simp: InventoryItem_add_newItemRaw_def)
  then have "inventoryId i = ''I-00001''"
    using m InventoryItem_formatId_1 by (simp add: inventory_nextNum_eq)
  with i show "\<exists>i. InventoryItem_add today items q = (Inr i, items @ [i])
           \<and> inventoryId i = ''I-00001''"
    by blast
qed

theorem add_malformed_ids_witness:
  "\<not> is_recipe_id ''R-7'' \<and> recipe_id_num ''R-7'' = 0
   \<and> \<not> is_inventory_id ''I-0000012'' \<and> inventory_id_num ''I-0000012'' = 0
   \<and> list_all (\<lambda>r. \<not> is_recipe_id (recipeId r)) odd_id_recipes
   \<and> recipe_payload_valid sample_recipe_payload \<and> isYmd ''2025-07-25''
   \<and> (\<exists>r. Recipe_add ''2025-07-25'' odd_id_recipes sample_recipe_payload
            = (Inr r, odd_id_recipes @ [r]) \<and> recipeId r = ''R-00001'')
   \<and> list_all (\<lambda>i. \<not> is_inventory_id (inventoryId i)) odd_id_inventory
   \<and> inventory_payload_valid ''2025-07-25'' sample_inventory_payload_user
   \<and> (\<exists>i. InventoryItem_add ''2025-07-25'' odd_id_inventory sample_inventory_payload_user
            = (Inr i, odd_id_inventory @ [i]) \<and> inventoryId i = ''I-00001'')"
proof -
  have h1: "\<not> is_recipe_id ''R-7''" "\<not> is_inventory_id ''I-0000012''"
    by code_simp+
  have h2: "\<forall>r\<in>set odd_id_recipes. \<not> is_recipe_id (recipeId r)"
    "recipe_payload_valid sample_recipe_payload" "isYmd ''2025-07-25''"
    by code_simp+
  have h3: "\<forall>i\<in>set odd_id_inventory. \<not> is_inventory_id (inventoryId i)"
    "inventory_payload_valid ''2025-07-25'' sample_inventory_payload_user"
    by code_simp+
  note t = add_malformed_ids [of "''R-7''" "''I-0000012''" odd_id_recipes sample_recipe_payload
      "''2025-07-25''" odd_id_inventory sample_inventory_payload_user]
  from t h1 have "recipe_id_num ''R-7'' = 0" "inventory_id_num ''I-0000012'' = 0" by blast+
  moreover from t h2 have "\<exists>r. Recipe_add ''2025-07-25'' odd_id_recipes sample_recipe_payload
            = (Inr r, odd_id_recipes @ [r]) \<and> recipeId r = ''R-00001''" by blast
  moreover from t h3 have
    "\<exists>i. InventoryItem_add ''2025-07-25'' odd_id_inventory sample_inventory_payload_user
            = (Inr i, odd_id_inventory @ [i]) \<and> inventoryId i = ''I-00001''" by blast
  ultimately show ?thesis using h1 h2 h3 by (simp add: list_all_iff)
qed

section \<open>Search\<close>

lemma starts_with_prefix: "starts_with h n \<longleftrightarrow> prefix n h"
  by (induction h n rule: starts_with.induct) auto

lemma str_includes_sublist: "str_includes h n \<longleftrightarrow> sublist n h"
  by (induction h) (auto simp: starts_with_prefix sublist_Cons_right)

lemma textIncludes_ci_substring: "textIncludes s q \<longleftrightarrow> ci_substring q s"
  by (simp add: textIncludes_def ci_substring_def str_includes_sublist)

lemma ci_substring_Nil: "ci_substring [] s"
  by (simp add: ci_substring_def toLowerCase_def)

lemma ci_match_Nil: "ci_match [] r"
  by (simp add: ci_match_def ci_substring_Nil)

lemma search_matches_ci_match: "search_matches q r \<longleftrightarrow> ci_match q r"
  by (cases "q = []")
     (auto simp: search_matches_def ci_match_def textIncludes_ci_substring list_ex_iff
        ci_substring_Nil)

lemma map_sr_recipe_search_scaled: "map sr_recipe (map (search_scaled sc) rs) = rs"
  by (induction rs) (auto simp: search_scaled_def)

lemma map_comp_sr_recipe_search_scaled: "map (sr_recipe \<circ> search_scaled sc) rs = rs"
  using map_sr_recipe_search_scaled [of sc rs] by simp

text \<open>
  Claim C6, as amended. The handler trims the query first. For every request that
  supplies \<open>query\<close> or \<open>scale\<close>, the results are, in stored order, exactly the recipes in
  which the trimmed query is a case-insensitive substring of title, chef, mealType or
  cuisineType, or of a single ingredients entry, or of a single instructions entry; the
  empty query matches every record, so a query that is empty or blank returns them all.
  The "has a search been performed" flag is true exactly when \<open>query\<close> or \<open>scale\<close> is
  supplied: true for an explicitly supplied empty query, false when neither is supplied,
  and then no results are produced.
\<close>

theorem search_results_exact:
  "(sq_query req \<noteq> None \<or> sq_scale req \<noteq> None \<longrightarrow>
      map sr_recipe (v_results (search_recipe recipes req))
        = filter (ci_match (trim (str_or_empty (sq_query req)))) recipes)
   \<and> ci_match [] r
   \<and> ((sq_query req \<noteq> None \<or> sq_scale req \<noteq> None)
        \<and> trim (str_or_empty (sq_query req)) = [] \<longrightarrow>
      map sr_recipe (v_results (search_recipe recipes req)) = recipes)
   \<and> v_hasSearched (search_recipe recipes req)
        = (sq_query req \<noteq> None \<or> sq_scale req \<noteq> None)
   \<and> v_hasSearched (search_recipe recipes \<lparr>sq_query = Some [], sq_scale = None\<rparr>)
   \<and> \<not> v_hasSearched (search_recipe recipes \<lparr>sq_query = None, sq_scale = None\<rparr>)
   \<and> v_results (search_recipe recipes \<lparr>sq_query = None, sq_scale = None\<rparr>) = []"
proof -
  have eq: "filter (search_matches q) recipes = filter (ci_match q) recipes" for q
    by (rule filter_cong) (simp_all add: search_matches_ci_match)
  have all: "filter (ci_match []) recipes = recipes"
    by (simp add: ci_match_Nil)
  show ?thesis
    using all
    by (auto simp: search_recipe_def Let_def map_comp_sr_recipe_search_scaled eq ci_match_Nil)
qed

theorem search_results_exact_witness:
  "map (recipeId \<circ> sr_recipe)
       (v_results (search_recipe seed_recipes \<lparr>sq_query = Some ''  CARBONARA '', sq_scale = None\<rparr>))
     = [''R-00001'']
   \<and> map sr_recipe (v_results (search_recipe seed_recipes \<lparr>sq_query = Some [], sq_scale = None\<rparr>))
     = seed_recipes"
proof -
  have f: "map recipeId (filter (ci_match (trim (str_or_empty (Some ''  CARBONARA '')))) seed_recipes)
            = [''R-00001'']"
    by code_simp
  have t: "trim (str_or_empty (Some [])) = []"
    by code_simp
  have "map sr_recipe
          (v_results (search_recipe seed_recipes \<lparr>sq_query = Some ''  CARBONARA '', sq_scale = None\<rparr>))
        = filter (ci_match (trim (str_or_empty (Some ''  CARBONARA '')))) seed_recipes"
    using search_results_exact [of "\<lparr>sq_query = Some ''  CARBONARA '', sq_scale = None\<rparr>" seed_recipes]
    by simp
  then have "map (recipeId \<circ> sr_recipe)
       (v_results (search_recipe seed_recipes \<lparr>sq_query = Some ''  CARBONARA '', sq_scale = None\<rparr>))
     = [''R-00001'']"
    using f by (simp flip: map_map)
  moreover have "map sr_recipe
        (v_results (search_recipe seed_recipes \<lparr>sq_query = Some [], sq_scale = None\<rparr>))
     = seed_recipes"
    using search_results_exact [of "\<lparr>sq_query = Some [], sq_scale = None\<rparr>" seed_recipes] t
    by simp
  ultimately show ?thesis by simp
qed

text \<open>The claim as written fails for a query with white space around it: the query
  \<open>carbonara\<close> followed by a space is a substring of no field of any seed recipe, yet
  the search returns the carbonara recipe.\<close>

theorem search_results_exact_counterexample:
  "filter (ci_match ''carbonara '') seed_recipes = []
   \<and> map (recipeId \<circ> sr_recipe)
        (v_results (search_recipe seed_recipes \<lparr>sq_query = Some ''carbonara '', sq_scale = None\<rparr>))
     = [''R-00001'']"
  by code_simp










end
